theory Spec2Isabelle
  imports Main "HOL-Library.Word" "HOL-Library.Multiset" "HOL-Library.Sublist"
    "HOL-Library.List_Lexorder" "HOL-Library.Product_Lexorder"
begin

section \<open>Package key: the key manager of subnet-cli (internal/key/key.go)\<close>

text \<open>
  The package owns one secp256k1 private key, its CB58 text form and its P-Chain address,
  loads the key from a file, and selects the UTXOs a spend consumes. Go strings and the
  bytes of a key file are \<open>string\<close> (a \<open>char\<close> is one byte); the raw bytes of a key
  are \<open>8 word list\<close>; \<open>uint64\<close> and \<open>uint32\<close> are words, so \<open>+\<close> wraps as in Go.
\<close>

type_synonym byte = "8 word"
type_synonym uint32 = "32 word"
type_synonym uint64 = "64 word"

subsection \<open>Errors\<close>

text \<open>
  The five errors the package declares, \<open>io.EOF\<close>, the two errors of \<open>encoding/hex\<close>,
  the error of \<open>ioutil.ReadFile\<close>, and \<open>LibError\<close> for whatever error a function of the
  avalanchego packages returns.
\<close>

datatype error =
    ErrInvalidType
  | ErrInvalidPrivateKey
  | ErrInvalidPrivateKeyLen
  | ErrInvalidPrivateKeyEnding
  | ErrInvalidPrivateKeyEncoding
  | EOF
  | ErrLength
  | InvalidByteError char
  | PathError string
  | LibError string

subsection \<open>Data\<close>

text \<open>
  \<open>*crypto.PrivateKeySECP256K1R\<close>: the package reads a key only through \<open>Bytes()\<close>
  (and through the address of its public key, see \<open>PublicKeyAddress\<close> below); a nil
  pointer is \<open>None\<close> of the option type. A value of the interface \<open>crypto.PrivateKey\<close>
  carries its dynamic type, which the type assertion \<open>rpk.(*crypto.PrivateKeySECP256K1R)\<close>
  tests.
\<close>

datatype PrivateKeySECP256K1R = PrivateKeySECP256K1R (Bytes: "byte list")

datatype PrivateKey = SECP256K1R PrivateKeySECP256K1R | OtherPrivateKey

text \<open>
  \<open>verify.Verifiable\<close>, as the keychain's \<open>Spend\<close> returns it: the type assertion
  \<open>inputf.(avax.TransferableIn)\<close> succeeds on \<open>TransferableIn\<close> only.
\<close>

datatype 'i Verifiable = TransferableIn 'i | NotTransferableIn

record UTXOID =
  TxID :: "byte list"
  OutputIndex :: uint32

record 'o UTXO =
  UTXOID :: UTXOID
  Asset :: "byte list"
  Out :: 'o

record 'i TransferableInput =
  UTXOID :: UTXOID
  Asset :: "byte list"
  In :: 'i

record Op =
  privKey :: "PrivateKeySECP256K1R option"
  privKeyEncoded :: string
  time :: uint64
  targetAmount :: uint64
  feeDeduct :: uint64

record smanager =
  hrp :: string
  privKey :: PrivateKeySECP256K1R
  privKeyRaw :: "byte list"
  privKeyEncoded :: string
  pAddr :: string
  keyChain :: "PrivateKeySECP256K1R list"

subsection \<open>The avalanchego packages the code calls\<close>

text \<open>
  The functions and constants of avalanchego that key.go uses are parameters of the
  model, gathered in one record: \<open>formatting.EncodeWithChecksum(formatting.CB58, _)\<close>,
  \<open>formatting.Decode(formatting.CB58, _)\<close>, the key factory's \<open>NewPrivateKey\<close> (the
  outcome of the one call \<open>New\<close> makes) and \<open>ToPrivateKey\<close>,
  \<open>pk.PublicKey().Address().Bytes()\<close>, \<open>formatting.FormatAddress\<close>, the keychain's
  \<open>Spend\<close> (without the signers, which the code drops), \<open>Amount()\<close> of a transferable
  input, \<open>avax.SortTransferableInputs\<close>, and the network ids and HRPs of package
  \<open>constants\<close>. \<open>'o\<close> is the type of a UTXO's output, \<open>'i\<close> of a transferable input.
\<close>

record ('o, 'i) ext =
  EncodeWithChecksum :: "byte list \<Rightarrow> error + string"
  Decode :: "string \<Rightarrow> error + byte list"
  NewPrivateKey :: "error + PrivateKey"
  ToPrivateKey :: "byte list \<Rightarrow> error + PrivateKey"
  PublicKeyAddress :: "PrivateKeySECP256K1R \<Rightarrow> byte list"
  FormatAddress :: "string \<Rightarrow> string \<Rightarrow> byte list \<Rightarrow> error + string"
  KeychainSpend :: "PrivateKeySECP256K1R list \<Rightarrow> 'o \<Rightarrow> uint64 \<Rightarrow> error + 'i Verifiable"
  Amount :: "'i \<Rightarrow> uint64"
  SortTransferableInputs :: "'i TransferableInput list \<Rightarrow> 'i TransferableInput list"
  LocalID :: uint32
  FujiID :: uint32
  MainnetID :: uint32
  LocalHRP :: string
  FujiHRP :: string
  MainnetHRP :: string
  FallbackHRP :: string

subsection \<open>Options\<close>

type_synonym OpOption = "Op \<Rightarrow> Op"

definition Op_zero :: Op where
  "Op_zero = \<lparr>Op.privKey = None, Op.privKeyEncoded = [], time = 0, targetAmount = 0, feeDeduct = 0\<rparr>"

definition applyOpts :: "Op \<Rightarrow> OpOption list \<Rightarrow> Op" where
  "applyOpts op opts = fold (\<lambda>opt op. opt op) opts op"

definition WithPrivateKey :: "PrivateKeySECP256K1R option \<Rightarrow> OpOption" where
  "WithPrivateKey k op = op\<lparr>Op.privKey := k\<rparr>"

definition WithPrivateKeyEncoded :: "string \<Rightarrow> OpOption" where
  "WithPrivateKeyEncoded enc op = op\<lparr>Op.privKeyEncoded := enc\<rparr>"

definition WithTime :: "uint64 \<Rightarrow> OpOption" where
  "WithTime t op = op\<lparr>time := t\<rparr>"

definition WithTargetAmount :: "uint64 \<Rightarrow> OpOption" where
  "WithTargetAmount ta op = op\<lparr>targetAmount := ta\<rparr>"

definition WithFeeDeduct :: "uint64 \<Rightarrow> OpOption" where
  "WithFeeDeduct fee op = op\<lparr>feeDeduct := fee\<rparr>"

subsection \<open>Encoding and decoding a private key\<close>

definition privKeyEncPfx :: string where
  "privKeyEncPfx = ''PrivateKey-''"

definition privKeySize :: nat where
  "privKeySize = 64"

text \<open>
  \<open>strings.Replace(s, old, new, 1)\<close>: the leftmost occurrence of \<open>old\<close> in \<open>s\<close> is
  replaced by \<open>new\<close>; \<open>s\<close> is returned as it is when \<open>old\<close> does not occur.
\<close>

fun Replace1 :: "string \<Rightarrow> string \<Rightarrow> string \<Rightarrow> string" where
  "Replace1 [] old new = (if old = [] then new else [])"
| "Replace1 (c # s) old new =
     (if prefix old (c # s) then new @ drop (length old) (c # s)
      else c # Replace1 s old new)"

definition encodePrivateKey :: "('o, 'i) ext \<Rightarrow> PrivateKeySECP256K1R \<Rightarrow> error + string" where
  "encodePrivateKey ext pk =
     (let raw = Bytes pk in
      case EncodeWithChecksum ext raw of
        Inl err \<Rightarrow> Inl err
      | Inr enc \<Rightarrow> Inr (privKeyEncPfx @ enc))"

definition decodePrivateKey :: "('o, 'i) ext \<Rightarrow> string \<Rightarrow> error + PrivateKeySECP256K1R" where
  "decodePrivateKey ext enc =
     (let rawPk = Replace1 enc privKeyEncPfx [] in
      case Decode ext rawPk of
        Inl err \<Rightarrow> Inl err
      | Inr skBytes \<Rightarrow>
          (case ToPrivateKey ext skBytes of
             Inl err \<Rightarrow> Inl err
           | Inr rpk \<Rightarrow>
               (case rpk of
                  SECP256K1R k \<Rightarrow> Inr k
                | OtherPrivateKey \<Rightarrow> Inl ErrInvalidType)))"

subsection \<open>Constructing a key manager\<close>

definition getHRP :: "('o, 'i) ext \<Rightarrow> uint32 \<Rightarrow> string" where
  "getHRP ext networkID =
     (if networkID = LocalID ext then LocalHRP ext
      else if networkID = FujiID ext then FujiHRP ext
      else if networkID = MainnetID ext then MainnetHRP ext
      else FallbackHRP ext)"

definition updateAddr :: "('o, 'i) ext \<Rightarrow> smanager \<Rightarrow> error + smanager" where
  "updateAddr ext m =
     (let pubBytes = PublicKeyAddress ext (smanager.privKey m) in
      case FormatAddress ext ''P'' (hrp m) pubBytes of
        Inl err \<Rightarrow> Inl err
      | Inr addr \<Rightarrow> Inr (m\<lparr>pAddr := addr\<rparr>))"

text \<open>
  Where a field of a record has the name of a local variable of the source (\<open>privKey\<close>,
  \<open>privKeyEncoded\<close>, \<open>privKeyRaw\<close>, \<open>keyChain\<close>), the variable is \<open>k\<close>, \<open>enc\<close>,
  \<open>raw\<close>, \<open>kc\<close> here. \<open>New\<close> in the three blocks of the source. \<open>New_encoded\<close> is the block under
  ``set via WithPrivateKeyEncoded'': it returns the options with the decoded key.
  \<open>New_generate\<close> is the block under ``generate a new one'': it returns the key the
  manager gets. \<open>New\<close> then encodes the key, checks the encoding against the one
  supplied, and builds the manager around a keychain holding the key.
\<close>

definition New_encoded :: "('o, 'i) ext \<Rightarrow> Op \<Rightarrow> error + Op" where
  "New_encoded ext ret =
     (if length (Op.privKeyEncoded ret) > 0 then
        (case decodePrivateKey ext (Op.privKeyEncoded ret) of
           Inl err \<Rightarrow> Inl err
         | Inr k \<Rightarrow>
             (case Op.privKey ret of
                Some given \<Rightarrow>
                  if Bytes given \<noteq> Bytes k then Inl ErrInvalidPrivateKey
                  else Inr (ret\<lparr>Op.privKey := Some k\<rparr>)
              | None \<Rightarrow> Inr (ret\<lparr>Op.privKey := Some k\<rparr>)))
      else Inr ret)"

definition New_generate :: "('o, 'i) ext \<Rightarrow> Op \<Rightarrow> error + PrivateKeySECP256K1R" where
  "New_generate ext ret =
     (case Op.privKey ret of
        None \<Rightarrow>
          (case NewPrivateKey ext of
             Inl err \<Rightarrow> Inl err
           | Inr rpk \<Rightarrow>
               (case rpk of
                  SECP256K1R k \<Rightarrow> Inr k
                | OtherPrivateKey \<Rightarrow> Inl ErrInvalidType))
      | Some k \<Rightarrow> Inr k)"

definition New :: "('o, 'i) ext \<Rightarrow> uint32 \<Rightarrow> string \<Rightarrow> OpOption list \<Rightarrow> error + smanager" where
  "New ext networkID name opts =
     (let ret = applyOpts Op_zero opts in
      case New_encoded ext ret of
        Inl err \<Rightarrow> Inl err
      | Inr ret \<Rightarrow>
          (case New_generate ext ret of
             Inl err \<Rightarrow> Inl err
           | Inr k \<Rightarrow>
               (case encodePrivateKey ext k of
                  Inl err \<Rightarrow> Inl err
                | Inr enc \<Rightarrow>
                    if Op.privKeyEncoded ret \<noteq> [] \<and> Op.privKeyEncoded ret \<noteq> enc
                    then Inl ErrInvalidPrivateKeyEncoding
                    else
                      (let kc = [k];
                           m = \<lparr>hrp = [], smanager.privKey = k, privKeyRaw = Bytes k,
                                smanager.privKeyEncoded = enc, pAddr = [],
                                keyChain = kc\<rparr>;
                           m = m\<lparr>hrp := getHRP ext networkID\<rparr>
                       in updateAddr ext m))))"

subsection \<open>Selecting the UTXOs to spend\<close>

definition spend :: "('o, 'i) ext \<Rightarrow> smanager \<Rightarrow> 'o UTXO \<Rightarrow> uint64 \<Rightarrow> error + 'i" where
  "spend ext m output t =
     (case KeychainSpend ext (keyChain m) (Out output) t of
        Inl err \<Rightarrow> Inl err
      | Inr inputf \<Rightarrow>
          (case inputf of
             TransferableIn input \<Rightarrow> Inr input
           | NotTransferableIn \<Rightarrow> Inl ErrInvalidType))"

text \<open>
  The loop of \<open>Spends\<close> over the remaining outputs, with the running total and the
  inputs appended so far. A failed \<open>spend\<close> is logged and the loop continues; the
  warning is not part of the result and is not modelled. The \<open>break\<close> returns the state
  as it is.
\<close>

fun Spends_loop ::
  "('o, 'i) ext \<Rightarrow> smanager \<Rightarrow> Op \<Rightarrow> 'o UTXO list \<Rightarrow> uint64 \<Rightarrow> 'i TransferableInput list
    \<Rightarrow> uint64 \<times> 'i TransferableInput list" where
  "Spends_loop ext m ret [] totalBalanceToSpend inputs = (totalBalanceToSpend, inputs)"
| "Spends_loop ext m ret (out # outputs) totalBalanceToSpend inputs =
     (case spend ext m out (time ret) of
        Inl err \<Rightarrow> Spends_loop ext m ret outputs totalBalanceToSpend inputs
      | Inr input \<Rightarrow>
          (let totalBalanceToSpend = totalBalanceToSpend + Amount ext input;
               inputs = inputs @ [\<lparr>TransferableInput.UTXOID = UTXO.UTXOID out,
                                    TransferableInput.Asset = UTXO.Asset out,
                                    In = input\<rparr>]
           in if targetAmount ret > 0 \<and>
                 totalBalanceToSpend > targetAmount ret + feeDeduct ret
              then (totalBalanceToSpend, inputs)
              else Spends_loop ext m ret outputs totalBalanceToSpend inputs))"

definition Spends ::
  "('o, 'i) ext \<Rightarrow> smanager \<Rightarrow> 'o UTXO list \<Rightarrow> OpOption list
    \<Rightarrow> uint64 \<times> 'i TransferableInput list" where
  "Spends ext m outputs opts =
     (let ret = applyOpts Op_zero opts in
      case Spends_loop ext m ret outputs 0 [] of
        (totalBalanceToSpend, inputs) \<Rightarrow>
          (totalBalanceToSpend, SortTransferableInputs ext inputs))"

subsection \<open>Loading a key file\<close>

text \<open>
  \<open>ReadByte\<close> of the \<open>bufio.Reader\<close> over the file's bytes: the reader is the bytes
  not yet read; at the end it returns the zero byte and \<open>io.EOF\<close>.
\<close>

definition ReadByte :: "string \<Rightarrow> char \<times> error option \<times> string" where
  "ReadByte r = (case r of [] \<Rightarrow> (CHR 0x00, Some EOF, []) | b # r' \<Rightarrow> (b, None, r'))"

text \<open>
  \<open>readASCII\<close> returns the buffer, the reader, \<open>n\<close> and the error. The byte read is
  stored before it is tested, as in the source.
\<close>

function readASCII_loop :: "string \<Rightarrow> string \<Rightarrow> nat \<Rightarrow> string \<times> string \<times> nat \<times> error option" where
  "readASCII_loop buf r n =
     (if n < length buf then
        (case ReadByte r of
           (b, err, r') \<Rightarrow>
             if err = Some EOF \<or> (of_char b :: nat) < of_char CHR ''!''
             then (buf[n := b], r', n, None)
             else if err \<noteq> None then (buf[n := b], r', n, err)
             else readASCII_loop (buf[n := b]) r' (n + 1))
      else (buf, r, n, None))"
  by pat_completeness auto
termination
  by (relation "measure (\<lambda>(buf, r, n). length buf - n)") auto

definition readASCII :: "string \<Rightarrow> string \<Rightarrow> string \<times> string \<times> nat \<times> error option" where
  "readASCII buf r = readASCII_loop buf r 0"

definition fileEndLimit :: nat where
  "fileEndLimit = 1"

text \<open>
  \<open>checkKeyFileEnd\<close>: the cases of the \<open>switch\<close> in the source's order. Every turn of
  the loop that does not return has read a byte, so the loop ends with the reader.
\<close>

function checkKeyFileEnd_loop :: "string \<Rightarrow> nat \<Rightarrow> error option" where
  "checkKeyFileEnd_loop r idx =
     (case ReadByte r of
        (b, err, r') \<Rightarrow>
          if err = Some EOF then None
          else if err \<noteq> None then err
          else if b \<noteq> CHR 0x0A \<and> b \<noteq> CHR 0x0D then Some ErrInvalidPrivateKeyEnding
          else if idx > fileEndLimit then Some ErrInvalidPrivateKeyLen
          else checkKeyFileEnd_loop r' (idx + 1))"
  by pat_completeness auto
termination
  by (relation "measure (\<lambda>(r, idx). length r)") (auto simp: ReadByte_def split: list.splits)

definition checkKeyFileEnd :: "string \<Rightarrow> error option" where
  "checkKeyFileEnd r = checkKeyFileEnd_loop r 0"

text \<open>
  \<open>hex.DecodeString\<close> of the Go standard library: two characters give one byte; the
  first character that is no hex digit gives \<open>InvalidByteError\<close>, an odd length
  \<open>ErrLength\<close>.
\<close>

definition fromHexChar :: "char \<Rightarrow> byte option" where
  "fromHexChar c =
     (let n = (of_char c :: nat) in
      if of_char CHR ''0'' \<le> n \<and> n \<le> of_char CHR ''9'' then Some (of_nat (n - of_char CHR ''0''))
      else if of_char CHR ''a'' \<le> n \<and> n \<le> of_char CHR ''f'' then Some (of_nat (n - of_char CHR ''a'' + 10))
      else if of_char CHR ''A'' \<le> n \<and> n \<le> of_char CHR ''F'' then Some (of_nat (n - of_char CHR ''A'' + 10))
      else None)"

fun DecodeString :: "string \<Rightarrow> error + byte list" where
  "DecodeString [] = Inr []"
| "DecodeString [p] =
     (case fromHexChar p of None \<Rightarrow> Inl (InvalidByteError p) | Some a \<Rightarrow> Inl ErrLength)"
| "DecodeString (p # q # src) =
     (case fromHexChar p of
        None \<Rightarrow> Inl (InvalidByteError p)
      | Some a \<Rightarrow>
          (case fromHexChar q of
             None \<Rightarrow> Inl (InvalidByteError q)
           | Some b \<Rightarrow>
               (case DecodeString src of
                  Inl err \<Rightarrow> Inl err
                | Inr dst \<Rightarrow> Inr ((push_bit 4 a + b) # dst))))"

text \<open>
  \<open>ioutil.ReadFile\<close> on a file system that maps a path to the bytes of its file.
\<close>

definition ReadFile :: "(string \<rightharpoonup> string) \<Rightarrow> string \<Rightarrow> error + string" where
  "ReadFile fs p = (case fs p of None \<Rightarrow> Inl (PathError p) | Some kb \<Rightarrow> Inr kb)"

definition Load :: "('o, 'i) ext \<Rightarrow> (string \<rightharpoonup> string) \<Rightarrow> uint32 \<Rightarrow> string \<Rightarrow> error + smanager" where
  "Load ext fs networkID keyPath =
     (case ReadFile fs keyPath of
        Inl err \<Rightarrow> Inl err
      | Inr kb \<Rightarrow>
          (case New ext networkID keyPath [WithPrivateKeyEncoded kb] of
             Inr k \<Rightarrow> Inr k
           | Inl _ \<Rightarrow>
               (case readASCII (replicate privKeySize (CHR 0x00)) kb of
                  (buf, r, n, Some err) \<Rightarrow> Inl err
                | (buf, r, n, None) \<Rightarrow>
                    if n \<noteq> length buf then Inl ErrInvalidPrivateKeyLen
                    else
                      (case checkKeyFileEnd r of
                         Some err \<Rightarrow> Inl err
                       | None \<Rightarrow>
                           (case DecodeString buf of
                              Inl err \<Rightarrow> Inl err
                            | Inr skBytes \<Rightarrow>
                                (case ToPrivateKey ext skBytes of
                                   Inl err \<Rightarrow> Inl err
                                 | Inr rpk \<Rightarrow>
                                     (case rpk of
                                        SECP256K1R k \<Rightarrow>
                                          New ext networkID keyPath [WithPrivateKey (Some k)]
                                      | OtherPrivateKey \<Rightarrow> Inl ErrInvalidType)))))))"

section \<open>What the specification says a selection is\<close>

text \<open>
  The specification describes the result of a selection by the spendable UTXOs of the
  candidate list. \<open>sweep_inputs\<close> is the list it speaks of in ``selecting every spendable
  UTXO'': the input of each candidate the key can spend at the reference time, in the
  order of the candidates. \<open>total_amount\<close> is the sum of the amounts of a list of inputs,
  in \<open>uint64\<close> as the running total of the code. \<open>InputSource\<close> is the identifier the
  canonical order compares: the transaction id, byte by byte, then the output index.
\<close>

fun sweep_inputs ::
  "('o, 'i) ext \<Rightarrow> smanager \<Rightarrow> uint64 \<Rightarrow> 'o UTXO list \<Rightarrow> 'i TransferableInput list" where
  "sweep_inputs ext m t [] = []"
| "sweep_inputs ext m t (u # us) =
     (case spend ext m u t of
        Inl err \<Rightarrow> sweep_inputs ext m t us
      | Inr i \<Rightarrow>
          \<lparr>TransferableInput.UTXOID = UTXO.UTXOID u, TransferableInput.Asset = UTXO.Asset u,
           In = i\<rparr> # sweep_inputs ext m t us)"

definition total_amount :: "('o, 'i) ext \<Rightarrow> 'i TransferableInput list \<Rightarrow> uint64" where
  "total_amount ext ins = sum_list (map (\<lambda>inp. Amount ext (In inp)) ins)"

definition InputSource :: "'i TransferableInput \<Rightarrow> byte list \<times> uint32" where
  "InputSource inp =
     (TxID (TransferableInput.UTXOID inp), OutputIndex (TransferableInput.UTXOID inp))"

text \<open>
  What the code relies on from \<open>avax.SortTransferableInputs\<close>: it returns the inputs it
  was given, ordered by \<open>InputSource\<close> (lists of bytes and pairs are compared
  lexicographically, words as unsigned numbers).
\<close>

definition sorts_by_source ::
  "('i TransferableInput list \<Rightarrow> 'i TransferableInput list) \<Rightarrow> bool" where
  "sorts_by_source srt \<longleftrightarrow>
     (\<forall>ins. mset (srt ins) = mset ins \<and> sorted (map InputSource (srt ins)))"

text \<open>
  The characters \<open>hex.DecodeString\<close> accepts, and the two characters
  \<open>checkKeyFileEnd\<close> skips.
\<close>

definition hexDigits :: "char set" where
  "hexDigits = set ''0123456789abcdefABCDEF''"

definition lineEnds :: "char set" where
  "lineEnds = {CHR 0x0A, CHR 0x0D}"

text \<open>
  The library takes the bytes \<open>b\<close> for a key of network \<open>networkID\<close>: the factory
  makes a secp256k1 key of them, the key has a CB58 form, and its address can be
  formatted. These are the three library calls on the way from the bytes of a raw-hex key
  file to the manager.
\<close>

definition accepts_key :: "('o, 'i) ext \<Rightarrow> uint32 \<Rightarrow> byte list \<Rightarrow> bool" where
  "accepts_key ext networkID b =
     (case ToPrivateKey ext b of
        Inr (SECP256K1R k) \<Rightarrow>
          (case EncodeWithChecksum ext (Bytes k) of
             Inr c \<Rightarrow>
               (case FormatAddress ext ''P'' (getHRP ext networkID) (PublicKeyAddress ext k) of
                  Inr addr \<Rightarrow> True
                | Inl err \<Rightarrow> False)
           | Inl err \<Rightarrow> False)
      | _ \<Rightarrow> False)"

section \<open>An instance of the library, for the examples\<close>

text \<open>
  The examples below run the code on a stand-in for the avalanchego packages. The CB58
  codec is given at one point only, the key of the source's constant \<open>rawEwoqPk\<close>:
  the 32 bytes \<open>ewoq\<close> are the bytes that string stands for in CB58, and every other
  call of the codec fails. The factory makes the key that holds the bytes it is given,
  an output is an amount with a lock time and can be spent from the lock time on, and
  the sort is the insertion sort by \<open>InputSource\<close>. The address functions are
  placeholders.
\<close>

definition ewoq :: "byte list" where
  "ewoq = [0x56, 0x28, 0x9e, 0x99, 0xc9, 0x4b, 0x69, 0x12, 0xbf, 0xc1, 0x2a, 0xdc, 0x09, 0x3c,
           0x9b, 0x51, 0x12, 0x4f, 0x0d, 0xc5, 0x4a, 0xc7, 0xa7, 0x66, 0xb2, 0xbc, 0x5c, 0xcf,
           0x55, 0x8d, 0x80, 0x27]"

definition rawEwoqPk :: string where
  "rawEwoqPk = ''ewoqjP7PxY4yr3iLTpLisriqt94hdyDFNgchSxGGztUrTXtNN''"

definition EwoqPrivateKey :: string where
  "EwoqPrivateKey = ''PrivateKey-'' @ rawEwoqPk"

definition cb58_Encode :: "byte list \<Rightarrow> error + string" where
  "cb58_Encode b = (if b = ewoq then Inr rawEwoqPk else Inl (LibError ''not tabulated''))"

definition cb58_Decode :: "string \<Rightarrow> error + byte list" where
  "cb58_Decode s = (if s = rawEwoqPk then Inr ewoq else Inl (LibError ''not tabulated''))"

record TransferOutput =
  Amt :: uint64
  Locktime :: uint64

definition lib :: "(TransferOutput, uint64) ext" where
  "lib = \<lparr>
     EncodeWithChecksum = cb58_Encode,
     Decode = cb58_Decode,
     NewPrivateKey = Inr (SECP256K1R (PrivateKeySECP256K1R ewoq)),
     ToPrivateKey = (\<lambda>b. Inr (SECP256K1R (PrivateKeySECP256K1R b))),
     PublicKeyAddress = (\<lambda>k. take 20 (Bytes k)),
     FormatAddress = (\<lambda>chain h b. Inr (chain @ ''-'' @ h)),
     KeychainSpend = (\<lambda>kc out t.
        if Locktime out > t then Inl (LibError ''locked'') else Inr (TransferableIn (Amt out))),
     Amount = (\<lambda>i. i),
     SortTransferableInputs = sort_key InputSource,
     LocalID = 12345, FujiID = 5, MainnetID = 1,
     LocalHRP = ''local'', FujiHRP = ''fuji'', MainnetHRP = ''avax'', FallbackHRP = ''custom''\<rparr>"

text \<open>The key of \<open>rawEwoqPk\<close>, and the manager \<open>New\<close> builds around it on the local network.\<close>

definition ewoqKey :: PrivateKeySECP256K1R where
  "ewoqKey = PrivateKeySECP256K1R ewoq"

definition ewoqManager :: smanager where
  "ewoqManager = \<lparr>hrp = ''local'', smanager.privKey = ewoqKey, privKeyRaw = ewoq,
     smanager.privKeyEncoded = EwoqPrivateKey, pAddr = ''P-local'', keyChain = [ewoqKey]\<rparr>"

text \<open>UTXOs for the examples: the transaction id is one byte, the asset is empty.\<close>

definition utxo :: "byte \<Rightarrow> uint32 \<Rightarrow> uint64 \<Rightarrow> uint64 \<Rightarrow> TransferOutput UTXO" where
  "utxo tx idx amt lock =
     \<lparr>UTXO.UTXOID = \<lparr>TxID = [tx], OutputIndex = idx\<rparr>, UTXO.Asset = [],
      Out = \<lparr>Amt = amt, Locktime = lock\<rparr>\<rparr>"

definition input :: "byte \<Rightarrow> uint32 \<Rightarrow> uint64 \<Rightarrow> uint64 TransferableInput" where
  "input tx idx amt =
     \<lparr>TransferableInput.UTXOID = \<lparr>TxID = [tx], OutputIndex = idx\<rparr>,
      TransferableInput.Asset = [], In = amt\<rparr>"

section \<open>Lemmas\<close>

subsection \<open>Replacing the first occurrence\<close>

lemma Replace1_prefix: "Replace1 (old @ s) old new = new @ s"
proof (cases "old @ s")
  case Nil
  then show ?thesis by simp
next
  case (Cons a list)
  have "prefix old (old @ s)" by simp
  then have "Replace1 (old @ s) old new = new @ drop (length old) (old @ s)"
    unfolding Cons by simp
  then show ?thesis by simp
qed

lemma Replace1_absent: "\<not> sublist old s \<Longrightarrow> Replace1 s old new = s"
proof (induction s)
  case Nil
  then show ?case by auto
next
  case (Cons c s)
  have "\<not> prefix old (c # s)"
    using Cons.prems by (auto dest: prefix_imp_sublist)
  moreover have "\<not> sublist old s"
    using Cons.prems by (auto simp: sublist_Cons_right)
  ultimately show ?case using Cons.IH by simp
qed


lemma Replace1_first:
  assumes "x \<notin> set a" and "x \<notin> set p"
  shows "Replace1 (a @ (p @ [x]) @ b) (p @ [x]) new = a @ new @ b"
  using assms(1)
proof (induction a)
  case Nil
  show ?case using Replace1_prefix [of "p @ [x]" b new] by simp
next
  case (Cons c a)
  let ?s = "(c # a) @ (p @ [x]) @ b"
  have np: "\<not> prefix (p @ [x]) ?s"
  proof
    assume "prefix (p @ [x]) ?s"
    then obtain r where r: "?s = (p @ [x]) @ r"
      unfolding prefix_def by blast
    have "(((c # a) @ p) @ x # b) ! length p = ((c # a) @ p) ! length p"
      by (rule nth_append_left) simp
    then have "?s ! length p = ((c # a) @ p) ! length p"
      by simp
    moreover have "((c # a) @ p) ! length p \<in> set ((c # a) @ p)"
      by (rule nth_mem) simp
    moreover have "((p @ [x]) @ r) ! length p = x"
      by (simp add: nth_append)
    ultimately have "x \<in> set ((c # a) @ p)"
      by (simp only: r)
    then show False
      using Cons.prems assms(2) by simp
  qed
  obtain d t where dt: "?s = d # t" by simp
  have "Replace1 ?s (p @ [x]) new = c # Replace1 (a @ (p @ [x]) @ b) (p @ [x]) new"
    using np by (simp del: append_assoc)
  moreover have "Replace1 (a @ (p @ [x]) @ b) (p @ [x]) new = a @ new @ b"
    using Cons by simp
  ultimately show ?case by simp
qed

subsection \<open>The loop of the selection\<close>

lemma total_amount_simps [simp]:
  "total_amount ext [] = 0"
  "total_amount ext (x # xs) = Amount ext (In x) + total_amount ext xs"
  "total_amount ext (xs @ ys) = total_amount ext xs + total_amount ext ys"
  by (simp_all add: total_amount_def)

lemma sweep_inputs_append:
  "sweep_inputs ext m t (xs @ ys) = sweep_inputs ext m t xs @ sweep_inputs ext m t ys"
  by (induction xs) (auto split: sum.splits)

lemma Spends_loop_sweep:
  "targetAmount ret = 0 \<Longrightarrow>
   Spends_loop ext m ret outs t ins =
     (t + total_amount ext (sweep_inputs ext m (time ret) outs),
      ins @ sweep_inputs ext m (time ret) outs)"
  by (induction outs arbitrary: t ins) (auto split: sum.splits simp: Let_def ac_simps)

lemma Spends_loop_skip:
  "spend ext m u (time ret) = Inl e \<Longrightarrow>
   Spends_loop ext m ret (pre @ u # post) t ins = Spends_loop ext m ret (pre @ post) t ins"
  by (induction pre arbitrary: t ins) (auto split: sum.splits simp: Let_def)

lemma Spends_loop_take:
  "\<exists>k \<le> length outs.
     Spends_loop ext m ret outs t ins =
       (t + total_amount ext (sweep_inputs ext m (time ret) (take k outs)),
        ins @ sweep_inputs ext m (time ret) (take k outs))"
proof (induction outs arbitrary: t ins)
  case Nil
  then show ?case by simp
next
  case (Cons u outs)
  show ?case
  proof (cases "spend ext m u (time ret)")
    case (Inl e)
    obtain k where k: "k \<le> length outs"
      "Spends_loop ext m ret outs t ins =
       (t + total_amount ext (sweep_inputs ext m (time ret) (take k outs)),
        ins @ sweep_inputs ext m (time ret) (take k outs))"
      using Cons.IH by blast
    show ?thesis
      by (rule exI [of _ "Suc k"]) (simp add: Inl k)
  next
    case (Inr i)
    let ?inp = "\<lparr>TransferableInput.UTXOID = UTXO.UTXOID u,
        TransferableInput.Asset = UTXO.Asset u, In = i\<rparr>"
    show ?thesis
    proof (cases "targetAmount ret > 0 \<and> t + Amount ext i > targetAmount ret + feeDeduct ret")
      case True
      show ?thesis
        by (rule exI [of _ "Suc 0"]) (use True in \<open>simp add: Inr Let_def\<close>)
    next
      case False
      obtain k where k: "k \<le> length outs"
        "Spends_loop ext m ret outs (t + Amount ext i) (ins @ [?inp]) =
         (t + Amount ext i + total_amount ext (sweep_inputs ext m (time ret) (take k outs)),
          (ins @ [?inp]) @ sweep_inputs ext m (time ret) (take k outs))"
        using Cons.IH by blast
      show ?thesis
        by (rule exI [of _ "Suc k"]) (use False k in \<open>auto simp add: Inr Let_def ac_simps\<close>)
    qed
  qed
qed

lemma Spends_loop_stop:
  assumes "targetAmount ret > 0"
    and "spend ext m u (time ret) = Inr i"
    and "t + total_amount ext (sweep_inputs ext m (time ret) (pre @ [u]))
           > targetAmount ret + feeDeduct ret"
    and "\<forall>j < length pre. (\<exists>x. spend ext m (pre ! j) (time ret) = Inr x) \<longrightarrow>
           \<not> t + total_amount ext (sweep_inputs ext m (time ret) (take (Suc j) pre))
               > targetAmount ret + feeDeduct ret"
  shows "Spends_loop ext m ret (pre @ u # post) t ins =
     (t + total_amount ext (sweep_inputs ext m (time ret) (pre @ [u])),
      ins @ sweep_inputs ext m (time ret) (pre @ [u]))"
  using assms(3,4)
proof (induction pre arbitrary: t ins)
  case Nil
  then show ?case using assms(1,2) by (simp add: Let_def)
next
  case (Cons x pre)
  show ?case
  proof (cases "spend ext m x (time ret)")
    case (Inl e)
    have "t + total_amount ext (sweep_inputs ext m (time ret) (pre @ [u]))
           > targetAmount ret + feeDeduct ret"
      using Cons.prems(1) Inl by simp
    moreover have "\<forall>j < length pre. (\<exists>x. spend ext m (pre ! j) (time ret) = Inr x) \<longrightarrow>
           \<not> t + total_amount ext (sweep_inputs ext m (time ret) (take (Suc j) pre))
               > targetAmount ret + feeDeduct ret"
    proof (intro allI impI)
      fix j assume "j < length pre" "\<exists>x. spend ext m (pre ! j) (time ret) = Inr x"
      then show "\<not> t + total_amount ext (sweep_inputs ext m (time ret) (take (Suc j) pre))
               > targetAmount ret + feeDeduct ret"
        using Cons.prems(2) [rule_format, of "Suc j"] Inl by simp
    qed
    ultimately show ?thesis
      using Cons.IH [of t ins] Inl by simp
  next
    case (Inr ix)
    let ?inp = "\<lparr>TransferableInput.UTXOID = UTXO.UTXOID x,
        TransferableInput.Asset = UTXO.Asset x, In = ix\<rparr>"
    have no: "\<not> t + Amount ext ix > targetAmount ret + feeDeduct ret"
      using Cons.prems(2) [rule_format, of 0] Inr by simp
    have "(t + Amount ext ix) + total_amount ext (sweep_inputs ext m (time ret) (pre @ [u]))
           > targetAmount ret + feeDeduct ret"
      using Cons.prems(1) Inr by (simp add: ac_simps)
    moreover have "\<forall>j < length pre. (\<exists>x. spend ext m (pre ! j) (time ret) = Inr x) \<longrightarrow>
           \<not> (t + Amount ext ix) + total_amount ext (sweep_inputs ext m (time ret) (take (Suc j) pre))
               > targetAmount ret + feeDeduct ret"
    proof (intro allI impI)
      fix j assume "j < length pre" "\<exists>x. spend ext m (pre ! j) (time ret) = Inr x"
      then show "\<not> (t + Amount ext ix) + total_amount ext (sweep_inputs ext m (time ret) (take (Suc j) pre))
               > targetAmount ret + feeDeduct ret"
        using Cons.prems(2) [rule_format, of "Suc j"] Inr by (simp add: ac_simps)
    qed
    ultimately have "Spends_loop ext m ret (pre @ u # post) (t + Amount ext ix) (ins @ [?inp]) =
       ((t + Amount ext ix) + total_amount ext (sweep_inputs ext m (time ret) (pre @ [u])),
        (ins @ [?inp]) @ sweep_inputs ext m (time ret) (pre @ [u]))"
      using Cons.IH [of "t + Amount ext ix" "ins @ [?inp]"] by blast
    then show ?thesis
      using no Inr by (auto simp add: Let_def ac_simps)
  qed
qed

subsection \<open>The instance\<close>

lemma lib_simps:
  "EncodeWithChecksum lib = cb58_Encode" "Decode lib = cb58_Decode"
  "ToPrivateKey lib b = Inr (SECP256K1R (PrivateKeySECP256K1R b))"
  "Amount lib i = i"
  "SortTransferableInputs lib = sort_key InputSource"
  by (simp_all add: lib_def)

lemma spend_lib:
  "spend lib m (utxo tx idx amt lock) t =
     (if lock > t then Inl (LibError ''locked'') else Inr amt)"
  by (simp add: spend_def lib_def utxo_def)

lemma sorts_by_source_lib: "sorts_by_source (SortTransferableInputs lib)"
  by (simp add: sorts_by_source_def lib_def)

lemma New_ewoq: "New lib 12345 name [WithPrivateKeyEncoded EwoqPrivateKey] = Inr ewoqManager"
  by (simp add: New_def New_encoded_def New_generate_def applyOpts_def Op_zero_def
      WithPrivateKeyEncoded_def decodePrivateKey_def encodePrivateKey_def updateAddr_def getHRP_def
      lib_def cb58_Encode_def cb58_Decode_def EwoqPrivateKey_def rawEwoqPk_def privKeyEncPfx_def
      ewoqManager_def ewoqKey_def ewoq_def)

lemma utxo_simps:
  "UTXO.UTXOID (utxo tx idx amt lock) = \<lparr>TxID = [tx], OutputIndex = idx\<rparr>"
  "UTXO.Asset (utxo tx idx amt lock) = []"
  by (simp_all add: utxo_def)

lemmas ex_simps = Spends_def spend_lib applyOpts_def Op_zero_def WithTargetAmount_def
  WithTime_def WithFeeDeduct_def lib_simps utxo_simps input_def InputSource_def Let_def

section \<open>The claims\<close>

text \<open>
  In every theorem on \<open>Spends\<close> the options are the list \<open>opts\<close> the caller passes, and
  \<open>applyOpts Op_zero opts\<close> is the \<open>ret\<close> of the source: its \<open>time\<close> is the reference
  time, its \<open>targetAmount\<close> and \<open>feeDeduct\<close> the selection parameters. Amounts are
  \<open>uint64\<close>: a total is the sum the code computes, modulo \<open>2 ^ 64\<close>.
\<close>

text \<open>
  C5. A UTXO whose spend attempt fails contributes nothing to the result of \<open>Spends\<close>
  and does not stop it: the total and the inputs returned are those of the candidate
  list without that UTXO, whatever stands before and after it in the list.
\<close>

theorem Spends_skips_unspendable:
  assumes "spend ext m u (time (applyOpts Op_zero opts)) = Inl e"
  shows "Spends ext m (pre @ u # post) opts = Spends ext m (pre @ post) opts"
  using Spends_loop_skip [OF assms] by (simp add: Spends_def)

theorem Spends_skips_unspendable_witness:
  "spend lib ewoqManager (utxo 2 0 7 5) (time (applyOpts Op_zero [])) = Inl (LibError ''locked'') \<and>
   Spends lib ewoqManager ([utxo 3 0 10 0] @ utxo 2 0 7 5 # [utxo 1 0 10 0]) [] = (20, [input 1 0 10, input 3 0 10]) \<and>
   Spends lib ewoqManager ([utxo 3 0 10 0] @ [utxo 1 0 10 0]) [] = (20, [input 1 0 10, input 3 0 10])"
proof -
  have h: "spend lib ewoqManager (utxo 2 0 7 5) (time (applyOpts Op_zero [])) = Inl (LibError ''locked'')"
    by (simp add: ex_simps)
  have r: "Spends lib ewoqManager ([utxo 3 0 10 0] @ [utxo 1 0 10 0]) [] = (20, [input 1 0 10, input 3 0 10])"
    by (simp add: ex_simps)
  show ?thesis
    using h r Spends_skips_unspendable [OF h, of "[utxo 3 0 10 0]" "[utxo 1 0 10 0]"] by simp
qed

text \<open>
  C3. With a target amount of zero \<open>Spends\<close> goes through the whole candidate list: the
  total is the sum of the amounts of all spendable candidates and the inputs returned are
  their inputs, reordered by the sort. When no candidate is spendable, and when there is
  no candidate, the result is the total 0 and the empty list (\<open>Spends\<close> has no error
  result).
\<close>

theorem Spends_sweep:
  assumes "targetAmount (applyOpts Op_zero opts) = 0"
    and "sorts_by_source (SortTransferableInputs ext)"
  shows "fst (Spends ext m outputs opts) =
           total_amount ext (sweep_inputs ext m (time (applyOpts Op_zero opts)) outputs) \<and>
         mset (snd (Spends ext m outputs opts)) =
           mset (sweep_inputs ext m (time (applyOpts Op_zero opts)) outputs) \<and>
         (sweep_inputs ext m (time (applyOpts Op_zero opts)) outputs = [] \<longrightarrow>
            Spends ext m outputs opts = (0, [])) \<and>
         Spends ext m [] opts = (0, [])"
proof -
  have nil: "SortTransferableInputs ext [] = []"
    using assms(2) [unfolded sorts_by_source_def, rule_format, of "[]"] by simp
  have perm: "mset (SortTransferableInputs ext ins) = mset ins" for ins
    using assms(2) by (simp add: sorts_by_source_def)
  show ?thesis
    using Spends_loop_sweep [OF assms(1), of ext m _ 0 "[]"] nil perm
    by (auto simp: Spends_def)
qed

theorem Spends_sweep_witness:
  "targetAmount (applyOpts Op_zero [WithTime 1]) = 0 \<and>
   sorts_by_source (SortTransferableInputs lib) \<and>
   sweep_inputs lib ewoqManager 1 [utxo 3 0 10 0, utxo 2 0 7 5, utxo 1 0 4 1] = [input 3 0 10, input 1 0 4] \<and>
   Spends lib ewoqManager [utxo 3 0 10 0, utxo 2 0 7 5, utxo 1 0 4 1] [WithTime 1] = (14, [input 1 0 4, input 3 0 10]) \<and>
   sweep_inputs lib ewoqManager 1 [utxo 2 0 7 5] = [] \<and>
   Spends lib ewoqManager [utxo 2 0 7 5] [WithTime 1] = (0, []) \<and>
   Spends lib ewoqManager [] [WithTime 1] = (0, [])"
proof -
  have h: "targetAmount (applyOpts Op_zero [WithTime 1]) = 0"
    by (simp add: ex_simps)
  have t: "time (applyOpts Op_zero [WithTime 1]) = 1"
    by (simp add: ex_simps)
  have s1: "sweep_inputs lib ewoqManager 1 [utxo 3 0 10 0, utxo 2 0 7 5, utxo 1 0 4 1] = [input 3 0 10, input 1 0 4]"
    by (simp add: ex_simps)
  have s2: "sweep_inputs lib ewoqManager 1 [utxo 2 0 7 5] = []"
    by (simp add: ex_simps)
  have r1: "Spends lib ewoqManager [utxo 3 0 10 0, utxo 2 0 7 5, utxo 1 0 4 1] [WithTime 1] = (14, [input 1 0 4, input 3 0 10])"
    by (simp add: ex_simps)
  have r2: "Spends lib ewoqManager [utxo 2 0 7 5] [WithTime 1] = (0, [])"
    using Spends_sweep [OF h sorts_by_source_lib, of ewoqManager "[utxo 2 0 7 5]"] s2 t by simp
  have r3: "Spends lib ewoqManager [] [WithTime 1] = (0, [])"
    using Spends_sweep [OF h sorts_by_source_lib, of ewoqManager "[]"] by simp
  show ?thesis
    using h sorts_by_source_lib s1 s2 r1 r2 r3 by simp
qed

end
